theory Spec2Isabelle
  imports Complex_Main "HOL-Library.Word"
begin

section \<open>JavaScript numbers\<close>

text \<open>
  The component computes with JavaScript numbers. They are modelled as the reals extended by
  the three special values a division can produce. Rounding of the binary floating-point
  format and the sign of zero are not modelled: the zero divisors of this program are
  positive zeros (a length, half a sample rate of 0, the difference of two equal indices).
\<close>

datatype number = Fin real | NaN | PosInf | NegInf

fun js_neg :: "number \<Rightarrow> number" where
  "js_neg (Fin a) = Fin (- a)"
| "js_neg NaN = NaN"
| "js_neg PosInf = NegInf"
| "js_neg NegInf = PosInf"

fun js_add :: "number \<Rightarrow> number \<Rightarrow> number" where
  "js_add (Fin a) (Fin b) = Fin (a + b)"
| "js_add NaN _ = NaN"
| "js_add _ NaN = NaN"
| "js_add PosInf NegInf = NaN"
| "js_add NegInf PosInf = NaN"
| "js_add PosInf _ = PosInf"
| "js_add _ PosInf = PosInf"
| "js_add NegInf _ = NegInf"
| "js_add _ NegInf = NegInf"

definition js_sub :: "number \<Rightarrow> number \<Rightarrow> number" where
  "js_sub a b = js_add a (js_neg b)"

fun js_mul :: "number \<Rightarrow> number \<Rightarrow> number" where
  "js_mul (Fin a) (Fin b) = Fin (a * b)"
| "js_mul NaN _ = NaN"
| "js_mul _ NaN = NaN"
| "js_mul PosInf (Fin b) = (if b = 0 then NaN else if 0 < b then PosInf else NegInf)"
| "js_mul NegInf (Fin b) = (if b = 0 then NaN else if 0 < b then NegInf else PosInf)"
| "js_mul (Fin a) PosInf = (if a = 0 then NaN else if 0 < a then PosInf else NegInf)"
| "js_mul (Fin a) NegInf = (if a = 0 then NaN else if 0 < a then NegInf else PosInf)"
| "js_mul PosInf PosInf = PosInf"
| "js_mul PosInf NegInf = NegInf"
| "js_mul NegInf PosInf = NegInf"
| "js_mul NegInf NegInf = PosInf"

text \<open>Division never raises: \<open>0 / 0\<close> is \<open>NaN\<close> and \<open>x / 0\<close> is an infinity.\<close>

fun js_div :: "number \<Rightarrow> number \<Rightarrow> number" where
  "js_div (Fin a) (Fin b) =
     (if b \<noteq> 0 then Fin (a / b)
      else if a = 0 then NaN
      else if 0 < a then PosInf else NegInf)"
| "js_div NaN _ = NaN"
| "js_div _ NaN = NaN"
| "js_div (Fin a) PosInf = Fin 0"
| "js_div (Fin a) NegInf = Fin 0"
| "js_div PosInf (Fin b) = (if 0 \<le> b then PosInf else NegInf)"
| "js_div NegInf (Fin b) = (if 0 \<le> b then NegInf else PosInf)"
| "js_div PosInf PosInf = NaN"
| "js_div PosInf NegInf = NaN"
| "js_div NegInf PosInf = NaN"
| "js_div NegInf NegInf = NaN"

fun js_floor :: "number \<Rightarrow> number" where
  "js_floor (Fin a) = Fin (of_int \<lfloor>a\<rfloor>)"
| "js_floor NaN = NaN"
| "js_floor PosInf = PosInf"
| "js_floor NegInf = NegInf"

section \<open>The per-frame signal computation of \<open>analyzeAudio\<close>\<close>

text \<open>
  The sample buffer is a \<open>Uint8Array\<close>: a list of bytes. Reading an element gives its
  unsigned value as a number.
\<close>

type_synonym buffer = "8 word list"

text \<open>
  Lines 98 and 99: \<open>reduce((sum, value) => sum + value, 0) / length\<close>, then
  \<open>average / 255\<close>.
\<close>

definition reduce_sum :: "buffer \<Rightarrow> nat" where
  "reduce_sum B = foldl (\<lambda>sum value. sum + unat value) 0 B"

definition average :: "buffer \<Rightarrow> number" where
  "average B = js_div (Fin (real (reduce_sum B))) (Fin (real (length B)))"

definition level :: "buffer \<Rightarrow> number" where
  "level B = js_div (average B) (Fin 255)"

text \<open>
  Lines 107 and 108: \<open>Math.floor(freq * length / (sampleRate / 2))\<close> for \<open>freq\<close> 80 and 1000.
\<close>

definition binIndex :: "real \<Rightarrow> nat \<Rightarrow> real \<Rightarrow> number" where
  "binIndex freq len rate =
     js_floor (js_div (Fin (freq * real len)) (js_div (Fin rate) (Fin 2)))"

definition startIndex :: "buffer \<Rightarrow> real \<Rightarrow> number" where
  "startIndex B rate = binIndex 80 (length B) rate"

definition endIndex :: "buffer \<Rightarrow> real \<Rightarrow> number" where
  "endIndex B rate = binIndex 1000 (length B) rate"

text \<open>
  An element read \<open>B[i]\<close>: outside the array a typed array yields \<open>undefined\<close>
  (here \<open>None\<close>), and \<open>undefined > maxValue\<close> is false.
\<close>

definition readAt :: "buffer \<Rightarrow> int \<Rightarrow> nat option" where
  "readAt B i = (if 0 \<le> i \<and> i < int (length B) then Some (unat (B ! nat i)) else None)"

text \<open>The body of the loop, lines 111 to 114, on the pair \<open>(maxIndex, maxValue)\<close>.\<close>

definition pitchStep :: "buffer \<Rightarrow> int \<Rightarrow> int \<times> nat \<Rightarrow> int \<times> nat" where
  "pitchStep B i acc =
     (case readAt B i of
        Some v \<Rightarrow> if v > snd acc then (i, v) else acc
      | None \<Rightarrow> acc)"

text \<open>
  The loop of line 110, \<open>for (let i = startIndex; i < endIndex && i < length; i++)\<close>, on
  integer indices.
\<close>

function pitchLoop :: "buffer \<Rightarrow> int \<Rightarrow> int \<Rightarrow> int \<times> nat \<Rightarrow> int \<times> nat" where
  "pitchLoop B e i acc =
     (if i < e \<and> i < int (length B) then pitchLoop B e (i + 1) (pitchStep B i acc) else acc)"
  by pat_completeness auto
termination
  by (relation "measure (\<lambda>(B, e, i, acc). nat (e - i))") auto

declare pitchLoop.simps [simp del]

text \<open>The indices the loop reads, in order: the same recursion, collecting \<open>i\<close>.\<close>

function pitchLoopReads :: "buffer \<Rightarrow> int \<Rightarrow> int \<Rightarrow> int list" where
  "pitchLoopReads B e i =
     (if i < e \<and> i < int (length B) then i # pitchLoopReads B e (i + 1) else [])"
  by pat_completeness auto
termination
  by (relation "measure (\<lambda>(B, e, i). nat (e - i))") auto

declare pitchLoopReads.simps [simp del]

text \<open>
  Lines 102 to 115 for the indices that \<open>Math.floor\<close> returned. Both are computed with the
  same divisor from dividends of the same sign, so either both are finite integers or,
  when the sample rate is 0, both are \<open>Infinity\<close> or both are \<open>NaN\<close>; then the
  condition \<open>i < endIndex\<close> is false at once and the initial pair \<open>(0, 0)\<close> is the result.
\<close>

definition pitchScan :: "buffer \<Rightarrow> number \<Rightarrow> number \<Rightarrow> int \<times> nat" where
  "pitchScan B s e =
     (case (s, e) of
        (Fin a, Fin b) \<Rightarrow> pitchLoop B \<lfloor>b\<rfloor> \<lfloor>a\<rfloor> (0, 0)
      | _ \<Rightarrow> (0, 0))"

definition pitchScanReads :: "buffer \<Rightarrow> number \<Rightarrow> number \<Rightarrow> int list" where
  "pitchScanReads B s e =
     (case (s, e) of
        (Fin a, Fin b) \<Rightarrow> pitchLoopReads B \<lfloor>b\<rfloor> \<lfloor>a\<rfloor>
      | _ \<Rightarrow> [])"

text \<open>Line 118: \<open>maxIndex / (endIndex - startIndex)\<close>.\<close>

definition pitchValue :: "buffer \<Rightarrow> real \<Rightarrow> number" where
  "pitchValue B rate =
     (let s = startIndex B rate;
          e = endIndex B rate;
          maxIndex = fst (pitchScan B s e)
      in js_div (Fin (of_int maxIndex)) (js_sub e s))"

section \<open>The presentation layer, \<open>NeonOrbStyle\<close>\<close>

text \<open>Lines 160 and 161, on the props \<open>volume\<close> and \<open>pitch\<close>.\<close>

definition pulseSize :: "number \<Rightarrow> number \<Rightarrow> number" where
  "pulseSize volume p = js_add (Fin 1) (js_mul (js_add volume p) (Fin 0.3))"

definition glowIntensity :: "number \<Rightarrow> number \<Rightarrow> number" where
  "glowIntensity volume p = js_mul (js_add volume p) (Fin 30)"

section \<open>The component state\<close>

text \<open>
  The objects of the browser are handles and records of the properties the component
  reads or writes. \<open>frequencyBinCount\<close> of an analyser is half its \<open>fftSize\<close>
  (Web Audio API).
\<close>

type_synonym mediaStream = nat

record audioContext =
  sampleRate :: real

record analyserNode =
  fftSize :: nat
  smoothingTimeConstant :: real

definition frequencyBinCount :: "analyserNode \<Rightarrow> nat" where
  "frequencyBinCount a = fftSize a div 2"

text \<open>What the component does to the world outside its own state, in order.\<close>

datatype effect =
    ConsoleError string
  | Alert string
  | TrackStop mediaStream
  | ContextClose audioContext
  | CancelAnimationFrame nat
  | RequestAnimationFrame nat

text \<open>
  The four \<open>useState\<close> cells and the five \<open>useRef\<close> cells of lines 11 to 20, a
  \<open>null\<close> ref being \<open>None\<close>; then the effects so far and the animation-frame
  callback identifier of the window, which \<open>requestAnimationFrame\<close> increments and
  returns (HTML standard), so that a handle is never 0.
\<close>

record state =
  isRecording :: bool
  audioLevel :: number
  pitch :: number
  isPermissionGranted :: bool
  audioContextRef :: "audioContext option"
  analyserRef :: "analyserNode option"
  streamRef :: "mediaStream option"
  animationRef :: "nat option"
  dataArrayRef :: "buffer option"
  effects :: "effect list"
  frameCounter :: nat

definition initialState :: state where
  "initialState =
     \<lparr>isRecording = False, audioLevel = Fin 0, pitch = Fin 0, isPermissionGranted = False,
      audioContextRef = None, analyserRef = None, streamRef = None, animationRef = None,
      dataArrayRef = None, effects = [], frameCounter = 0\<rparr>"

text \<open>The props passed to \<open>NeonOrbStyle\<close> at lines 237 to 242, and what it computes.\<close>

definition render :: "state \<Rightarrow> bool \<times> number \<times> number" where
  "render s =
     (isRecording s, pulseSize (audioLevel s) (pitch s), glowIntensity (audioLevel s) (pitch s))"

section \<open>\<open>analyzeAudio\<close>\<close>

text \<open>
  \<open>getByteFrequencyData\<close> overwrites the array with the analyser's current data \<open>d\<close>:
  data beyond the array is dropped, elements beyond the data are left as they are.
\<close>

definition getByteFrequencyData :: "buffer \<Rightarrow> buffer \<Rightarrow> buffer" where
  "getByteFrequencyData d B = take (length B) d @ drop (length d) B"

definition requestAnimationFrame :: "state \<Rightarrow> nat \<times> state" where
  "requestAnimationFrame s =
     (let h = frameCounter s + 1
      in (h, s\<lparr>frameCounter := h, effects := effects s @ [RequestAnimationFrame h]\<rparr>))"

text \<open>
  Lines 91 to 122. The first guard returns before anything is done; the second one, at
  line 106, returns after the buffer is refilled and the level is set.
\<close>

definition analyzeAudio :: "buffer \<Rightarrow> state \<Rightarrow> state" where
  "analyzeAudio d s =
     (case (analyserRef s, dataArrayRef s) of
        (Some analyser, Some B0) \<Rightarrow>
          (let B = getByteFrequencyData d B0;
               s1 = s\<lparr>dataArrayRef := Some B\<rparr>;
               s2 = s1\<lparr>audioLevel := level B\<rparr>
           in case audioContextRef s2 of
                None \<Rightarrow> s2
              | Some ctx \<Rightarrow>
                  (let s3 = s2\<lparr>pitch := pitchValue B (sampleRate ctx)\<rparr>;
                       (h, s4) = requestAnimationFrame s3
                   in s4\<lparr>animationRef := Some h\<rparr>))
      | _ \<Rightarrow> s)"

section \<open>\<open>startRecording\<close> and \<open>stopRecording\<close>\<close>

text \<open>
  What the browser answers to one call of \<open>startRecording\<close>: \<open>getUserMedia\<close> rejects
  (permission denied, no device); or it resolves with a stream and the
  \<open>AudioContext\<close> constructor throws; or the stream and a context of some sample rate
  are there, and the analyser holds the data \<open>d\<close> when \<open>analyzeAudio\<close> is called at
  line 62. The other calls of lines 48 to 58 are taken not to throw.
\<close>

datatype acquisition =
    GetUserMediaRejected
  | AudioContextThrows mediaStream
  | Acquired mediaStream real buffer

text \<open>The \<open>catch\<close> block, lines 64 to 67.\<close>

definition catchBlock :: "state \<Rightarrow> state" where
  "catchBlock s =
     s\<lparr>effects := effects s @
        [ConsoleError ''Error accessing microphone:'',
         Alert ''Could not access microphone. Please check permissions.'']\<rparr>"

fun startRecording :: "acquisition \<Rightarrow> state \<Rightarrow> state" where
  "startRecording GetUserMediaRejected s = catchBlock s"
| "startRecording (AudioContextThrows stream) s =
     catchBlock (s\<lparr>streamRef := Some stream, isPermissionGranted := True\<rparr>)"
| "startRecording (Acquired stream rate d) s =
     (let analyser = \<lparr>fftSize = 2048, smoothingTimeConstant = 0.8\<rparr>;
          s1 = s\<lparr>streamRef := Some stream,
                 isPermissionGranted := True,
                 audioContextRef := Some \<lparr>sampleRate = rate\<rparr>,
                 analyserRef := Some analyser,
                 dataArrayRef := Some (replicate (frequencyBinCount analyser) 0),
                 isRecording := True\<rparr>
      in analyzeAudio d s1)"

text \<open>
  Lines 70 to 89. A ref is tested for truthiness: an object always passes, a frame handle
  passes unless it is 0.
\<close>

definition stopRecording :: "state \<Rightarrow> state" where
  "stopRecording s =
     (let s1 = (case streamRef s of
                  Some stream \<Rightarrow>
                    s\<lparr>streamRef := None, effects := effects s @ [TrackStop stream]\<rparr>
                | None \<Rightarrow> s);
          s2 = (case audioContextRef s1 of
                  Some ctx \<Rightarrow>
                    s1\<lparr>audioContextRef := None, effects := effects s1 @ [ContextClose ctx]\<rparr>
                | None \<Rightarrow> s1);
          s3 = (case animationRef s2 of
                  Some h \<Rightarrow>
                    if h \<noteq> 0
                    then s2\<lparr>animationRef := None,
                            effects := effects s2 @ [CancelAnimationFrame h]\<rparr>
                    else s2
                | None \<Rightarrow> s2)
      in s3\<lparr>isRecording := False, audioLevel := Fin 0, pitch := Fin 0\<rparr>)"

section \<open>Runs of the component\<close>

text \<open>
  The component is driven by calls of \<open>startRecording\<close> and \<open>stopRecording\<close> and by
  animation frames that call \<open>analyzeAudio\<close>, each with what the browser supplies.
\<close>

datatype event =
    StartRecording acquisition
  | StopRecording
  | AnimationFrame buffer

fun step :: "event \<Rightarrow> state \<Rightarrow> state" where
  "step (StartRecording a) s = startRecording a s"
| "step StopRecording s = stopRecording s"
| "step (AnimationFrame d) s = analyzeAudio d s"

fun run :: "event list \<Rightarrow> state \<Rightarrow> state" where
  "run [] s = s"
| "run (ev # evs) s = run evs (step ev s)"

section \<open>The level of a frame\<close>

lemma foldl_unat_sum:
  "foldl (\<lambda>sum value. sum + unat value) a (B :: buffer) = a + sum_list (map unat B)"
  by (induction B arbitrary: a) auto

lemma reduce_sum_sum_list: "reduce_sum B = sum_list (map unat B)"
  by (simp add: reduce_sum_def foldl_unat_sum)

lemma unat_byte_le: "unat (b :: 8 word) \<le> 255"
  using unsigned_less [of b, where ?'a = nat] by simp

lemma reduce_sum_le: "reduce_sum B \<le> 255 * length B"
proof (induction B)
  case Nil
  show ?case by (simp add: reduce_sum_sum_list)
next
  case (Cons b B)
  have "unat b \<le> 255" by (rule unat_byte_le)
  with Cons show ?case by (simp add: reduce_sum_sum_list)
qed

lemma length_getByteFrequencyData: "length (getByteFrequencyData d B) = length B"
  by (simp add: getByteFrequencyData_def)

text \<open>
  The level that a frame publishes is \<open>level\<close> of the refilled buffer, whether or not the
  frame goes on to the pitch.
\<close>

lemma analyzeAudio_level:
  assumes "analyserRef s = Some a" and "dataArrayRef s = Some B0"
  shows "audioLevel (analyzeAudio d s) = level (getByteFrequencyData d B0)"
  using assms
  by (simp add: analyzeAudio_def requestAnimationFrame_def Let_def
      split: option.splits prod.splits)

text \<open>
  Claim C7. For every magnitude buffer \<open>B\<close> of length \<open>N\<close> (its elements are bytes,
  so in 0 to 255), the level of the frame is the arithmetic mean of the \<open>N\<close> magnitudes
  divided by 255, and it lies between 0 and 1. The mean is that of at least one magnitude:
  the buffer that \<open>startRecording\<close> allocates has 1024 elements, and keeps them
  (\<open>reachable_buffer_length\<close> below).
\<close>

theorem level_is_mean_over_255:
  assumes "B \<noteq> []"
  shows "level B = Fin (real (sum_list (map unat B)) / real (length B) / 255)
    \<and> 0 \<le> real (sum_list (map unat B)) / real (length B) / 255
    \<and> real (sum_list (map unat B)) / real (length B) / 255 \<le> 1"
proof -
  from assms have len: "0 < real (length B)" by simp
  have "real (sum_list (map unat B)) \<le> 255 * real (length B)"
    using reduce_sum_le [of B] unfolding reduce_sum_sum_list
    by (metis of_nat_le_iff of_nat_mult of_nat_numeral)
  hence "real (sum_list (map unat B)) / real (length B) \<le> 255"
    using len by (simp add: pos_divide_le_eq)
  hence upper: "real (sum_list (map unat B)) / real (length B) / 255 \<le> 1"
    by simp
  have eq: "level B = Fin (real (sum_list (map unat B)) / real (length B) / 255)"
    using len by (simp add: level_def average_def reduce_sum_sum_list)
  show ?thesis using eq upper by simp
qed

theorem level_is_mean_over_255_witness:
  "[0, 255 :: 8 word] \<noteq> [] \<and> level [0, 255] = Fin (1 / 2)"
  using level_is_mean_over_255 [of "[0, 255]"] by simp

section \<open>The pitch scan\<close>

text \<open>The loop folds its body over the indices it reads, so \<open>pitchLoopReads\<close> lists
  exactly the executions of the read \<open>dataArrayRef.current[i]\<close>.\<close>

lemma pitchLoop_foldl_reads:
  "pitchLoop B e i acc = foldl (\<lambda>acc i. pitchStep B i acc) acc (pitchLoopReads B e i)"
proof (induction B e i acc rule: pitchLoop.induct)
  case (1 B e i acc)
  show ?case
  proof (cases "i < e \<and> i < int (length B)")
    case True
    with "1.IH" show ?thesis
      by (simp add: pitchLoop.simps [of B e i] pitchLoopReads.simps [of B e i])
  next
    case False
    then show ?thesis
      by (auto simp add: pitchLoop.simps [of B e i] pitchLoopReads.simps [of B e i])
  qed
qed

lemma pitchLoop_empty: "e \<le> s \<Longrightarrow> pitchLoop B e s acc = acc"
  by (subst pitchLoop.simps) simp

lemma pitchLoopReads_empty: "e \<le> s \<Longrightarrow> pitchLoopReads B e s = []"
  by (subst pitchLoopReads.simps) simp

lemma pitchLoopReads_bounds:
  "i \<in> set (pitchLoopReads B e s) \<Longrightarrow> s \<le> i \<and> i < e \<and> i < int (length B)"
proof (induction B e s rule: pitchLoopReads.induct)
  case (1 B e s)
  show ?case
  proof (cases "s < e \<and> s < int (length B)")
    case True
    with "1.prems" have "i = s \<or> i \<in> set (pitchLoopReads B e (s + 1))"
      by (subst (asm) pitchLoopReads.simps) simp
    then show ?thesis
    proof
      assume "i = s"
      with True show ?thesis by simp
    next
      assume "i \<in> set (pitchLoopReads B e (s + 1))"
      with "1.IH" [OF True] show ?thesis by simp
    qed
  next
    case False
    with "1.prems" show ?thesis
      by (subst (asm) pitchLoopReads.simps) simp
  qed
qed

text \<open>The two indices: finite integers unless the sample rate is 0, and then equal.\<close>

lemma binIndex_pos:
  assumes "0 < rate" and "0 \<le> freq"
  shows "binIndex freq len rate = Fin (of_int \<lfloor>freq * real len / (rate / 2)\<rfloor>)"
    and "0 \<le> \<lfloor>freq * real len / (rate / 2)\<rfloor>"
  using assms by (simp_all add: binIndex_def)

lemma binIndex_neg:
  assumes "rate < 0"
  shows "binIndex freq len rate = Fin (of_int \<lfloor>freq * real len / (rate / 2)\<rfloor>)"
  using assms by (simp add: binIndex_def)

lemma indices_at_rate_zero:
  "startIndex B 0 = endIndex B 0"
  "startIndex B 0 = (if B = [] then NaN else PosInf)"
  by (simp_all add: startIndex_def endIndex_def binIndex_def)

lemma pitchScanReads_in_bounds:
  assumes "i \<in> set (pitchScanReads B (startIndex B rate) (endIndex B rate))"
  shows "0 \<le> i \<and> i < int (length B)"
proof -
  let ?a = "\<lfloor>80 * real (length B) / (rate / 2)\<rfloor>"
  let ?b = "\<lfloor>1000 * real (length B) / (rate / 2)\<rfloor>"
  consider "0 < rate" | "rate < 0" | "rate = 0" by linarith
  then show ?thesis
  proof cases
    case 1
    with assms have "i \<in> set (pitchLoopReads B ?b ?a)"
      by (simp add: pitchScanReads_def startIndex_def endIndex_def binIndex_pos(1))
    from pitchLoopReads_bounds [OF this] have "?a \<le> i" and "i < int (length B)"
      by blast+
    moreover have "0 \<le> ?a"
      by (rule binIndex_pos(2) [OF 1]) simp
    ultimately show ?thesis by linarith
  next
    case 2
    then have "1000 * real (length B) / (rate / 2) \<le> 80 * real (length B) / (rate / 2)"
      by (simp add: divide_le_cancel)
    hence "?b \<le> ?a" by (rule floor_mono)
    hence "pitchLoopReads B ?b ?a = []" by (rule pitchLoopReads_empty)
    with 2 assms show ?thesis
      by (simp add: pitchScanReads_def startIndex_def endIndex_def binIndex_neg)
  next
    case 3
    with assms show ?thesis
      by (simp add: pitchScanReads_def startIndex_def endIndex_def binIndex_def
          split: if_splits)
  qed
qed

text \<open>
  Claim C10. For every buffer and every sample rate, each index that the pitch scan reads
  is inside the buffer: the read yields a byte, never \<open>undefined\<close>, also when
  \<open>endIndex\<close> is beyond the buffer length, because the loop condition bounds the index
  by the length as well.
\<close>

theorem pitch_scan_reads_in_bounds:
  "\<forall>i \<in> set (pitchScanReads B (startIndex B rate) (endIndex B rate)). readAt B i \<noteq> None"
  using pitchScanReads_in_bounds by (simp add: readAt_def)

theorem pitch_scan_reads_in_bounds_witness:
  "endIndex [1, 2, 3, 4] 1000 = Fin 8
   \<and> pitchScanReads [1, 2, 3, 4] (startIndex [1, 2, 3, 4] 1000) (endIndex [1, 2, 3, 4] 1000)
       = [0, 1, 2, 3]
   \<and> readAt [1, 2, 3, 4] 3 \<noteq> None"
  using pitch_scan_reads_in_bounds [of "[1, 2, 3, 4]" 1000, THEN bspec, of 3]
  by (simp add: pitchScanReads_def startIndex_def endIndex_def binIndex_def
      pitchLoopReads.simps)

section \<open>The pitch of a frame\<close>

text \<open>
  Claim C1. Where the voice-band range is not empty, the pitch of a frame should be
  (argmax of \<open>B\<close> over the range, minus \<open>startIndex\<close>) divided by
  (\<open>endIndex - startIndex\<close>), a value between 0 and 1. Line 118 divides \<open>maxIndex\<close>
  itself, without subtracting \<open>startIndex\<close>, although its comment reads
  "Convert to pitch value (0-1)". At 44100 Hz the range of the 1024 bins is 3 to 46; with the
  only peak in bin 45 the code gives 45/43, which is above 1, where the claim gives 42/43. The
  same value is published by the frame that \<open>startRecording\<close> runs.
\<close>

theorem pitch_of_peak_at_bin_45:
  "startIndex ((replicate 1024 0)[45 := 255]) 44100 = Fin 3
   \<and> endIndex ((replicate 1024 0)[45 := 255]) 44100 = Fin 46
   \<and> pitchScan ((replicate 1024 0)[45 := 255]) (Fin 3) (Fin 46) = (45, 255)
   \<and> pitchValue ((replicate 1024 0)[45 := 255]) 44100 = Fin (45 / 43)
   \<and> pitchValue ((replicate 1024 0)[45 := 255]) 44100 \<noteq> Fin ((45 - 3) / (46 - 3))
   \<and> (1 :: real) < 45 / 43
   \<and> pitch (run [StartRecording (Acquired 1 44100 ((replicate 1024 0)[45 := 255]))]
         initialState) = Fin (45 / 43)"
  by (simp add: initialState_def analyzeAudio_def frequencyBinCount_def
      getByteFrequencyData_def requestAnimationFrame_def Let_def
      pitchValue_def startIndex_def endIndex_def binIndex_def pitchScan_def js_sub_def
      pitchLoop.simps pitchStep_def readAt_def)

text \<open>With an empty range line 118 divides 0 by 0, whatever the buffer holds.\<close>

lemma pitchValue_empty_range:
  assumes "startIndex B rate = endIndex B rate"
  shows "pitchValue B rate = NaN"
proof (cases "endIndex B rate")
  case (Fin a)
  with assms show ?thesis
    by (simp add: pitchValue_def pitchScan_def js_sub_def pitchLoop_empty)
qed (use assms in \<open>simp_all add: pitchValue_def pitchScan_def js_sub_def\<close>)

text \<open>
  Claim C2. Where the voice-band range is empty, the pitch of a frame should be 0, with no
  division by zero. The code has no such case: the loop does not run, \<open>maxIndex\<close> stays
  0, and line 118 computes \<open>0 / 0\<close>, which is \<open>NaN\<close>. With 1024 bins the range is
  empty at a sample rate of 4096000 Hz, where both indices are 0.
\<close>

theorem pitch_of_empty_voice_band:
  "startIndex (replicate 1024 0) 4096000 = Fin 0
   \<and> endIndex (replicate 1024 0) 4096000 = Fin 0
   \<and> pitchScanReads (replicate 1024 0) (Fin 0) (Fin 0) = []
   \<and> pitchValue (replicate 1024 0) 4096000 = NaN
   \<and> pitchValue (replicate 1024 0) 4096000 \<noteq> Fin 0
   \<and> pitch (run [StartRecording (Acquired 1 4096000 (replicate 1024 0))] initialState) = NaN"
  by (simp add: initialState_def analyzeAudio_def frequencyBinCount_def
      getByteFrequencyData_def requestAnimationFrame_def Let_def
      pitchValue_def startIndex_def endIndex_def binIndex_def pitchScan_def js_sub_def
      pitchScanReads_def pitchLoopReads.simps pitchLoop.simps pitchStep_def readAt_def)

section \<open>The guards of a frame\<close>

text \<open>
  The first guard, line 92: with \<open>analyserRef\<close> or \<open>dataArrayRef\<close> null the frame
  returns at once and leaves the state as it was. No call of \<open>stopRecording\<close> nulls these
  two refs, so the guard holds only before the first successful start.
\<close>

lemma analyzeAudio_without_analyser_or_buffer:
  assumes "analyserRef s = None \<or> dataArrayRef s = None"
  shows "analyzeAudio d s = s"
  using assms by (auto simp add: analyzeAudio_def split: option.splits)

text \<open>
  The second guard, on the audio context at line 106, comes after the level: such a frame
  refills the buffer and publishes the level, and then stops without pitch or next frame.
\<close>

lemma analyzeAudio_without_audioContext:
  assumes "analyserRef s = Some a" and "dataArrayRef s = Some B0" and "audioContextRef s = None"
  shows "analyzeAudio d s =
    s\<lparr>dataArrayRef := Some (getByteFrequencyData d B0),
      audioLevel := level (getByteFrequencyData d B0)\<rparr>"
  using assms by (simp add: analyzeAudio_def Let_def)

section \<open>The presentation layer\<close>

text \<open>
  Claim C9. For every level \<open>l\<close> and pitch \<open>p\<close> the orb is drawn with pulse scale
  \<open>1 + (l + p) * 0.3\<close> and glow intensity \<open>(l + p) * 30\<close>, computed from the level and
  pitch of the state.
\<close>

theorem pulse_and_glow:
  "pulseSize (Fin l) (Fin p) = Fin (1 + (l + p) * 0.3)
   \<and> glowIntensity (Fin l) (Fin p) = Fin ((l + p) * 30)
   \<and> render s = (isRecording s, pulseSize (audioLevel s) (pitch s),
        glowIntensity (audioLevel s) (pitch s))"
  by (simp add: pulseSize_def glowIntensity_def render_def)

section \<open>The capture controller\<close>

text \<open>
  Claim C3. When \<open>startRecording\<close> is called and \<open>getUserMedia\<close> rejects, the error
  is shown to the user by \<open>alert\<close> and nothing else changes: \<open>isRecording\<close> and
  \<open>isPermissionGranted\<close> are what they were, every ref is what it was, so no stream,
  context, analyser or buffer is created. From the initial state both flags are false and
  all refs are null afterwards.
\<close>

theorem startRecording_rejected_changes_nothing:
  "startRecording GetUserMediaRejected s =
     s\<lparr>effects := effects s @
        [ConsoleError ''Error accessing microphone:'',
         Alert ''Could not access microphone. Please check permissions.'']\<rparr>
   \<and> isRecording (startRecording GetUserMediaRejected s) = isRecording s
   \<and> isPermissionGranted (startRecording GetUserMediaRejected s) = isPermissionGranted s
   \<and> streamRef (startRecording GetUserMediaRejected s) = streamRef s
   \<and> audioContextRef (startRecording GetUserMediaRejected s) = audioContextRef s
   \<and> analyserRef (startRecording GetUserMediaRejected s) = analyserRef s
   \<and> dataArrayRef (startRecording GetUserMediaRejected s) = dataArrayRef s
   \<and> animationRef (startRecording GetUserMediaRejected s) = animationRef s
   \<and> audioLevel (startRecording GetUserMediaRejected s) = audioLevel s
   \<and> pitch (startRecording GetUserMediaRejected s) = pitch s
   \<and> Alert ''Could not access microphone. Please check permissions.''
        \<in> set (effects (startRecording GetUserMediaRejected s))
   \<and> startRecording GetUserMediaRejected initialState =
       \<lparr>isRecording = False, audioLevel = Fin 0, pitch = Fin 0, isPermissionGranted = False,
        audioContextRef = None, analyserRef = None, streamRef = None, animationRef = None,
        dataArrayRef = None,
        effects = [ConsoleError ''Error accessing microphone:'',
                   Alert ''Could not access microphone. Please check permissions.''],
        frameCounter = 0\<rparr>"
  by (simp add: catchBlock_def initialState_def)

lemma analyzeAudio_flags:
  "isRecording (analyzeAudio d s) = isRecording s"
  "isPermissionGranted (analyzeAudio d s) = isPermissionGranted s"
  by (simp_all add: analyzeAudio_def requestAnimationFrame_def Let_def
      split: option.splits prod.splits)

lemma stopRecording_flags:
  "isRecording (stopRecording s) = False"
  "isPermissionGranted (stopRecording s) = isPermissionGranted s"
  by (simp_all add: stopRecording_def Let_def split: option.splits)

lemma step_keeps_permission_invariant:
  assumes "isRecording s \<longrightarrow> isPermissionGranted s"
  shows "isRecording (step ev s) \<longrightarrow> isPermissionGranted (step ev s)"
proof (cases ev)
  case (StartRecording a)
  with assms show ?thesis
    by (cases a) (simp_all add: catchBlock_def analyzeAudio_flags Let_def)
next
  case StopRecording
  then show ?thesis by (simp add: stopRecording_flags)
next
  case (AnimationFrame d)
  with assms show ?thesis by (simp add: analyzeAudio_flags)
qed

lemma run_keeps_permission_invariant:
  "isRecording s \<longrightarrow> isPermissionGranted s \<Longrightarrow>
   isRecording (run evs s) \<longrightarrow> isPermissionGranted (run evs s)"
proof (induction evs arbitrary: s)
  case Nil
  then show ?case by simp
next
  case (Cons ev evs)
  from Cons.prems have "isRecording (step ev s) \<longrightarrow> isPermissionGranted (step ev s)"
    by (rule step_keeps_permission_invariant)
  from Cons.IH [OF this] show ?case by simp
qed

text \<open>
  Claim C6. In every state that a sequence of \<open>startRecording\<close>, \<open>stopRecording\<close> and
  frame calls reaches from the initial state, \<open>isRecording\<close> implies
  \<open>isPermissionGranted\<close>: recording without permission never occurs.
\<close>

theorem recording_implies_permission:
  "isRecording (run evs initialState) \<longrightarrow> isPermissionGranted (run evs initialState)"
  by (rule run_keeps_permission_invariant) (simp add: initialState_def)

theorem recording_implies_permission_witness:
  "isRecording (run [StartRecording (Acquired 1 44100 [])] initialState)
   \<and> isPermissionGranted (run [StartRecording (Acquired 1 44100 [])] initialState)"
  using recording_implies_permission [of "[StartRecording (Acquired 1 44100 [])]"]
  by (simp add: analyzeAudio_flags initialState_def Let_def)

section \<open>\<open>stopRecording\<close>\<close>

text \<open>
  \<open>stopRecording\<close> resets the flag and the two signals and clears three of the five refs:
  the stream, the audio context and the frame handle. It does not touch \<open>analyserRef\<close> and
  \<open>dataArrayRef\<close>.
\<close>

lemma stopRecording_result:
  "isRecording (stopRecording s) = False"
  "audioLevel (stopRecording s) = Fin 0"
  "pitch (stopRecording s) = Fin 0"
  "streamRef (stopRecording s) = None"
  "audioContextRef (stopRecording s) = None"
  "animationRef (stopRecording s) = None \<or> animationRef (stopRecording s) = Some 0"
  by (simp_all add: stopRecording_def Let_def split: option.splits)

lemma stopRecording_keeps_analyser_and_buffer:
  "analyserRef (stopRecording s) = analyserRef s"
  "dataArrayRef (stopRecording s) = dataArrayRef s"
  by (simp_all add: stopRecording_def Let_def split: option.splits)

lemma stopRecording_idempotent: "stopRecording (stopRecording s) = stopRecording s"
  by (cases "streamRef s"; cases "audioContextRef s"; cases "animationRef s")
     (simp_all add: stopRecording_def Let_def)

text \<open>The buffer of every reachable state has the 1024 elements it was allocated with.\<close>

lemma analyzeAudio_buffer_length:
  assumes "\<forall>B. dataArrayRef s = Some B \<longrightarrow> length B = n"
  shows "\<forall>B. dataArrayRef (analyzeAudio d s) = Some B \<longrightarrow> length B = n"
  using assms
  by (auto simp add: analyzeAudio_def requestAnimationFrame_def Let_def
      length_getByteFrequencyData split: option.splits prod.splits)

lemma step_buffer_length:
  assumes "\<forall>B. dataArrayRef s = Some B \<longrightarrow> length B = 1024"
  shows "\<forall>B. dataArrayRef (step ev s) = Some B \<longrightarrow> length B = 1024"
proof (cases ev)
  case (StartRecording a)
  show ?thesis
  proof (cases a)
    case (Acquired stream rate d)
    have "\<forall>B. dataArrayRef (startRecording (Acquired stream rate d) s) = Some B
        \<longrightarrow> length B = 1024"
      unfolding startRecording.simps Let_def
      by (rule analyzeAudio_buffer_length) (simp add: frequencyBinCount_def)
    with StartRecording Acquired show ?thesis by simp
  qed (use assms StartRecording in \<open>simp_all add: catchBlock_def\<close>)
next
  case StopRecording
  with assms show ?thesis by (simp add: stopRecording_keeps_analyser_and_buffer)
next
  case (AnimationFrame d)
  with analyzeAudio_buffer_length [OF assms] show ?thesis by simp
qed

lemma run_buffer_length:
  "\<forall>B. dataArrayRef s = Some B \<longrightarrow> length B = 1024 \<Longrightarrow>
   \<forall>B. dataArrayRef (run evs s) = Some B \<longrightarrow> length B = 1024"
proof (induction evs arbitrary: s)
  case Nil
  then show ?case by simp
next
  case (Cons ev evs)
  from Cons.prems have "\<forall>B. dataArrayRef (step ev s) = Some B \<longrightarrow> length B = 1024"
    by (rule step_buffer_length)
  from Cons.IH [OF this] show ?case by simp
qed

lemma reachable_buffer_length:
  "dataArrayRef (run evs initialState) = Some B \<Longrightarrow> length B = 1024"
  using run_buffer_length [of initialState evs] by (simp add: initialState_def)

text \<open>While recording, the analyser and the buffer are there.\<close>

lemma analyzeAudio_refs:
  "analyserRef (analyzeAudio d s) = analyserRef s"
  "(dataArrayRef (analyzeAudio d s) = None) = (dataArrayRef s = None)"
  by (simp_all add: analyzeAudio_def requestAnimationFrame_def Let_def
      split: option.splits prod.splits)

lemma step_keeps_session_refs:
  assumes "isRecording s \<longrightarrow> analyserRef s \<noteq> None \<and> dataArrayRef s \<noteq> None"
  shows "isRecording (step ev s) \<longrightarrow>
    analyserRef (step ev s) \<noteq> None \<and> dataArrayRef (step ev s) \<noteq> None"
proof (cases ev)
  case (StartRecording a)
  with assms show ?thesis
    by (cases a) (simp_all add: catchBlock_def analyzeAudio_flags analyzeAudio_refs Let_def)
next
  case StopRecording
  then show ?thesis by (simp add: stopRecording_flags)
next
  case (AnimationFrame d)
  with assms show ?thesis by (simp add: analyzeAudio_flags analyzeAudio_refs)
qed

lemma run_keeps_session_refs:
  "isRecording s \<longrightarrow> analyserRef s \<noteq> None \<and> dataArrayRef s \<noteq> None \<Longrightarrow>
   isRecording (run evs s) \<longrightarrow>
     analyserRef (run evs s) \<noteq> None \<and> dataArrayRef (run evs s) \<noteq> None"
proof (induction evs arbitrary: s)
  case Nil
  then show ?case by simp
next
  case (Cons ev evs)
  from Cons.prems
  have "isRecording (step ev s) \<longrightarrow>
    analyserRef (step ev s) \<noteq> None \<and> dataArrayRef (step ev s) \<noteq> None"
    by (rule step_keeps_session_refs)
  from Cons.IH [OF this] show ?case by simp
qed

lemma recording_implies_session_refs:
  "isRecording (run evs initialState) \<longrightarrow>
     analyserRef (run evs initialState) \<noteq> None \<and> dataArrayRef (run evs initialState) \<noteq> None"
  by (rule run_keeps_session_refs) (simp add: initialState_def)

text \<open>
  Claim C4. In every reachable state the sample buffer and the analyser should be non-null
  exactly when recording, and after \<open>stopRecording\<close> level and pitch should be 0 with no
  buffer or analyser referenced. Level and pitch are 0, but \<open>stopRecording\<close> clears
  \<open>streamRef\<close>, \<open>audioContextRef\<close> and \<open>animationRef\<close> only: after a start and a stop
  the state is not recording and still holds the analyser and the 1024-byte buffer.
\<close>

theorem stop_after_start_keeps_analyser_and_buffer:
  "isRecording (run [StartRecording (Acquired 1 44100 (replicate 1024 0)), StopRecording]
       initialState) = False
   \<and> audioLevel (run [StartRecording (Acquired 1 44100 (replicate 1024 0)), StopRecording]
       initialState) = Fin 0
   \<and> pitch (run [StartRecording (Acquired 1 44100 (replicate 1024 0)), StopRecording]
       initialState) = Fin 0
   \<and> streamRef (run [StartRecording (Acquired 1 44100 (replicate 1024 0)), StopRecording]
       initialState) = None
   \<and> audioContextRef (run [StartRecording (Acquired 1 44100 (replicate 1024 0)), StopRecording]
       initialState) = None
   \<and> analyserRef (run [StartRecording (Acquired 1 44100 (replicate 1024 0)), StopRecording]
       initialState) = Some \<lparr>fftSize = 2048, smoothingTimeConstant = 0.8\<rparr>
   \<and> dataArrayRef (run [StartRecording (Acquired 1 44100 (replicate 1024 0)), StopRecording]
       initialState) = Some (replicate 1024 0)"
  by (simp add: stopRecording_result stopRecording_keeps_analyser_and_buffer
      initialState_def analyzeAudio_def frequencyBinCount_def getByteFrequencyData_def
      requestAnimationFrame_def Let_def)

text \<open>
  Claim C5. Two calls of \<open>stopRecording\<close> in a row should end in the state of one call:
  level 0, pitch 0, not recording, and none of stream, audio context, frame callback,
  analyser and buffer referenced. The second call changes nothing
  (\<open>stopRecording_idempotent\<close>) and the first three refs are cleared, but after a start
  and two stops the analyser and the buffer are still referenced, as after one stop.
\<close>

theorem stop_twice_keeps_analyser_and_buffer:
  "run [StartRecording (Acquired 1 44100 (replicate 1024 0)), StopRecording, StopRecording]
       initialState
     = run [StartRecording (Acquired 1 44100 (replicate 1024 0)), StopRecording] initialState
   \<and> streamRef (run [StartRecording (Acquired 1 44100 (replicate 1024 0)), StopRecording,
       StopRecording] initialState) = None
   \<and> audioContextRef (run [StartRecording (Acquired 1 44100 (replicate 1024 0)),
       StopRecording, StopRecording] initialState) = None
   \<and> animationRef (run [StartRecording (Acquired 1 44100 (replicate 1024 0)),
       StopRecording, StopRecording] initialState) = None
   \<and> analyserRef (run [StartRecording (Acquired 1 44100 (replicate 1024 0)), StopRecording,
       StopRecording] initialState) = Some \<lparr>fftSize = 2048, smoothingTimeConstant = 0.8\<rparr>
   \<and> dataArrayRef (run [StartRecording (Acquired 1 44100 (replicate 1024 0)), StopRecording,
       StopRecording] initialState) = Some (replicate 1024 0)"
  by (simp add: stopRecording_idempotent stopRecording_result
      stopRecording_keeps_analyser_and_buffer)
     (simp add: stopRecording_def initialState_def analyzeAudio_def frequencyBinCount_def
      getByteFrequencyData_def requestAnimationFrame_def Let_def)

section \<open>A frame after the session is torn down\<close>

lemma level_replicate: "0 < n \<Longrightarrow> level (replicate n b) = Fin (real (unat b) / 255)"
  by (simp add: level_def average_def reduce_sum_sum_list sum_list_replicate)

text \<open>
  Claim C8. A frame that runs while the analysis context or the sample buffer is absent,
  not yet initialized or already torn down, should be skipped entirely: no signal value
  published, no error, nothing visible. For the session torn down the code does not skip:
  \<open>stopRecording\<close> leaves \<open>analyserRef\<close> and \<open>dataArrayRef\<close> set, so the guard of
  line 92 passes, and the guard on the audio context at line 106 comes after
  \<open>setAudioLevel\<close>. Two calls of \<open>startRecording\<close> request the frames 1 and 2, the stop
  cancels frame 2 only and resets the level to 0; frame 1 then runs on loud data, refills
  the buffer and publishes the level 1 while not recording.
\<close>

theorem frame_after_stop_publishes_level:
  "audioContextRef (run [StartRecording (Acquired 1 44100 (replicate 1024 0)),
        StartRecording (Acquired 2 44100 (replicate 1024 0)), StopRecording] initialState) = None
   \<and> audioLevel (run [StartRecording (Acquired 1 44100 (replicate 1024 0)),
        StartRecording (Acquired 2 44100 (replicate 1024 0)), StopRecording] initialState) = Fin 0
   \<and> effects (run [StartRecording (Acquired 1 44100 (replicate 1024 0)),
        StartRecording (Acquired 2 44100 (replicate 1024 0)), StopRecording] initialState)
       = [RequestAnimationFrame 1, RequestAnimationFrame 2, TrackStop 2,
          ContextClose \<lparr>sampleRate = 44100\<rparr>, CancelAnimationFrame 2]
   \<and> isRecording (run [StartRecording (Acquired 1 44100 (replicate 1024 0)),
        StartRecording (Acquired 2 44100 (replicate 1024 0)), StopRecording,
        AnimationFrame (replicate 1024 255)] initialState) = False
   \<and> audioLevel (run [StartRecording (Acquired 1 44100 (replicate 1024 0)),
        StartRecording (Acquired 2 44100 (replicate 1024 0)), StopRecording,
        AnimationFrame (replicate 1024 255)] initialState) = Fin 1
   \<and> dataArrayRef (run [StartRecording (Acquired 1 44100 (replicate 1024 0)),
        StartRecording (Acquired 2 44100 (replicate 1024 0)), StopRecording,
        AnimationFrame (replicate 1024 255)] initialState) = Some (replicate 1024 255)
   \<and> run [StartRecording (Acquired 1 44100 (replicate 1024 0)),
        StartRecording (Acquired 2 44100 (replicate 1024 0)), StopRecording,
        AnimationFrame (replicate 1024 255)] initialState
      \<noteq> run [StartRecording (Acquired 1 44100 (replicate 1024 0)),
        StartRecording (Acquired 2 44100 (replicate 1024 0)), StopRecording] initialState"
  by (simp add: initialState_def analyzeAudio_def frequencyBinCount_def
      getByteFrequencyData_def requestAnimationFrame_def stopRecording_def Let_def
      level_replicate pitchValue_empty_range
      pitchValue_def startIndex_def endIndex_def binIndex_def pitchScan_def js_sub_def
      pitchLoop.simps pitchStep_def readAt_def)

end
